theory Spec2Isabelle
  imports Main
begin

section \<open>JavaScript values, errors and built-ins used by \<^verbatim>\<open>index.js\<close>\<close>

text \<open>
  The server is dynamically typed: a request body, a prompt input and a response body are
  all plain JavaScript values. The fragment that \<^verbatim>\<open>index.js\<close> handles is
  modelled by \<open>jsval\<close>: \<^verbatim>\<open>undefined\<close>, \<^verbatim>\<open>null\<close>, booleans,
  strings and objects (an association list of own properties, keys distinct). The values
  are data, as parsed from a JSON body or built by an object literal of the code: no property
  holds a function. Numbers and arrays do not occur in the code paths below and are left out.
\<close>

datatype jsval =
    JUndefined
  | JNull
  | JBool bool
  | JStr string
  | JObj "(string \<times> jsval) list"

text \<open>
  Every \<^verbatim>\<open>throw\<close> becomes a value. \<open>TypeError\<close> is what the language raises
  when a property of \<^verbatim>\<open>undefined\<close> or \<^verbatim>\<open>null\<close> is read or an object cannot
  be converted to a string;
  \<open>ServiceError\<close> stands for any rejection of an external collaborator (language model,
  prompt rendering, retriever, crawler, splitter, vector store).
\<close>

datatype error = TypeError | ServiceError string

text \<open>
  String conversion as performed by a template literal \<^verbatim>\<open>`${v}`\<close>. An object is
  converted by calling its \<^verbatim>\<open>toString\<close>. The inherited one answers
  \<^verbatim>\<open>[object Object]\<close>. An own property \<^verbatim>\<open>toString\<close> hides the inherited one; it
  is not a function, the inherited \<^verbatim>\<open>valueOf\<close> returns the object itself (an own
  \<^verbatim>\<open>valueOf\<close> is not a function either), and the conversion throws.
\<close>

fun ToString :: "jsval \<Rightarrow> error + string" where
  "ToString JUndefined = Inr ''undefined''"
| "ToString JNull = Inr ''null''"
| "ToString (JBool b) = Inr (if b then ''true'' else ''false'')"
| "ToString (JStr s) = Inr s"
| "ToString (JObj fs) =
     (if ''toString'' \<in> set (map fst fs) then Inl TypeError else Inr ''[object Object]'')"

text \<open>
  Property read \<^verbatim>\<open>v.k\<close> (also the destructuring \<^verbatim>\<open>const { k } = v\<close>):
  it throws on \<^verbatim>\<open>undefined\<close> and \<^verbatim>\<open>null\<close>, yields the own property of
  an object and \<^verbatim>\<open>undefined\<close> when the property is absent. Inherited prototype
  properties are not modelled; none of the keys read by the code is one.
\<close>

fun getprop :: "jsval \<Rightarrow> string \<Rightarrow> error + jsval" where
  "getprop JUndefined k = Inl TypeError"
| "getprop JNull k = Inl TypeError"
| "getprop (JObj fs) k = Inr (case map_of fs k of None \<Rightarrow> JUndefined | Some v \<Rightarrow> v)"
| "getprop (JBool b) k = Inr JUndefined"
| "getprop (JStr s) k = Inr JUndefined"

text \<open>
  \<^verbatim>\<open>Array.prototype.join\<close> on an array of strings, as the language defines it: a
  loop over the index \<open>k\<close> with the accumulated result \<open>R\<close>; the separator is added
  before every element but the first.
\<close>

function join_from :: "string \<Rightarrow> string list \<Rightarrow> nat \<Rightarrow> string \<Rightarrow> string" where
  "join_from sep xs k R =
     (if k < length xs
      then join_from sep xs (Suc k) ((if 0 < k then R @ sep else R) @ xs ! k)
      else R)"
  by pat_completeness auto
termination
  by (relation "measure (\<lambda>(sep, xs, k, R). length xs - k)") auto

declare join_from.simps [simp del]

definition join :: "string list \<Rightarrow> string \<Rightarrow> string" where
  "join xs sep = join_from sep xs 0 []"

text \<open>Sequencing of fallible stages (\<^verbatim>\<open>a.pipe(b)\<close>, \<^verbatim>\<open>RunnableSequence\<close>,
  \<^verbatim>\<open>await\<close> inside \<^verbatim>\<open>try\<close>): the first error ends the sequence.\<close>

definition pipe :: "('a \<Rightarrow> error + 'b) \<Rightarrow> ('b \<Rightarrow> error + 'c) \<Rightarrow> 'a \<Rightarrow> error + 'c" where
  "pipe f g x = (case f x of Inl e \<Rightarrow> Inl e | Inr y \<Rightarrow> g y)"

section \<open>External collaborators\<close>

text \<open>A LangChain \<^verbatim>\<open>Document\<close>: the text and its metadata.\<close>

record document =
  pageContent :: string
  metadata :: "(string \<times> string) list"

text \<open>Options of the HTML-to-text converter; \<open>None\<close> is the library's
  \<^verbatim>\<open>wordwrap: null\<close> or \<^verbatim>\<open>false\<close> (wrapping disabled), \<open>Some n\<close> a wrap
  width of \<open>n\<close> characters.\<close>

record convert_options =
  wordwrap :: "nat option"

datatype converter = Compiled convert_options

definition compile :: "convert_options \<Rightarrow> converter" where
  "compile opts = Compiled opts"

fun options_of :: "converter \<Rightarrow> convert_options" where
  "options_of (Compiled opts) = opts"

record loader =
  url :: jsval
  extractor :: converter
  maxDepth :: nat

text \<open>
  The libraries and remote services the server calls are not part of the repository. They are
  parameters of the model, each a function that may fail:
  \<^item> \<open>format t v\<close>: rendering of the prompt template \<open>t\<close> with the input values \<open>v\<close>;
  \<^item> \<open>llm p\<close>: the chat model called on the rendered prompt \<open>p\<close>, returning the text
    of its message (what \<^verbatim>\<open>StringOutputParser\<close> extracts);
  \<^item> \<open>retriever q\<close>: the documents the vector store returns for the query \<open>q\<close>, in
    the store's order;
  \<^item> \<open>load l\<close>: the crawl performed by the configured \<^verbatim>\<open>RecursiveUrlLoader\<close>;
  \<^item> \<open>JSON_stringify\<close>: \<^verbatim>\<open>JSON.stringify\<close> on a document array;
  \<^item> \<open>createDocuments\<close>: the text splitter on a list of texts;
  \<^item> \<open>fromDocuments\<close>: embedding and insertion into the vector table.
\<close>

record services =
  format :: "string \<Rightarrow> jsval \<Rightarrow> error + string"
  llm :: "string \<Rightarrow> error + string"
  retriever :: "jsval \<Rightarrow> error + document list"
  load :: "loader \<Rightarrow> error + document list"
  JSON_stringify :: "document list \<Rightarrow> string"
  createDocuments :: "string list \<Rightarrow> error + document list"
  fromDocuments :: "document list \<Rightarrow> error + unit"

section \<open>The conversational chain\<close>

definition formatConvHistory :: "string list \<Rightarrow> string" where
  "formatConvHistory messages = join messages [CHR 0x0A]"

definition standAloneQuestionTemplate :: string where
  \<open>standAloneQuestionTemplate =
     ''Given a conversation history (if any) and a question, '' @
     ''convert it to a standalone question.'' @ [CHR 0x0A] @
     ''Conversation history: {conv_history}'' @ [CHR 0x0A] @
     ''Question: {question} Standalone question:''\<close>

definition answerTemplate :: string where
  \<open>answerTemplate =
     ''You are a helpful and enthusiastic support bot who can answer a given '' @
     ''question about Scrimba based on the context provided and the '' @
     ''conversation history. Try to find the answer in the context. '' @
     ''If the answer is not given in the context, find the answer in the '' @
     ''conversation history if possible. If you really don't know the answer, '' @
     ''say "I'm sorry, I don't know the answer to that." '' @
     ''And direct the questioner to email help@company.com. '' @
     ''Don't try to make up an answer. '' @
     ''Always speak as if you were chatting to a friend.'' @ [CHR 0x0A] @
     ''Context: {context}'' @ [CHR 0x0A] @
     ''Conversation history: {conv_history}'' @ [CHR 0x0A] @
     ''Question: {question}'' @ [CHR 0x0A] @
     ''Answer: ''\<close>

definition StringOutputParser :: "string \<Rightarrow> error + string" where
  "StringOutputParser message = Inr message"

definition combineDocuments :: "document list \<Rightarrow> string" where
  "combineDocuments docs = join (map pageContent docs) [CHR 0x0A, CHR 0x0A]"

definition retrieverChain :: "services \<Rightarrow> jsval \<Rightarrow> error + string" where
  "retrieverChain svc =
     pipe (pipe (\<lambda>prevResult. getprop prevResult ''standalone_question'')
                (retriever svc))
          (\<lambda>docs. Inr (combineDocuments docs))"

definition answerChain :: "services \<Rightarrow> jsval \<Rightarrow> error + string" where
  "answerChain svc = pipe (pipe (format svc answerTemplate) (llm svc)) StringOutputParser"

definition standaloneQuestionChain :: "services \<Rightarrow> jsval \<Rightarrow> error + string" where
  "standaloneQuestionChain svc =
     pipe (pipe (format svc standAloneQuestionTemplate) (llm svc)) StringOutputParser"

text \<open>The two object literals of \<^verbatim>\<open>chain\<close>: each maps its input to an object whose
  properties are computed from that input.\<close>

definition chain_step1 :: "services \<Rightarrow> jsval \<Rightarrow> error + jsval" where
  "chain_step1 svc input =
     (case standaloneQuestionChain svc input of
        Inl e \<Rightarrow> Inl e
      | Inr sq \<Rightarrow> Inr (JObj [(''standalone_question'', JStr sq), (''original_input'', input)]))"

definition chain_step2 :: "services \<Rightarrow> jsval \<Rightarrow> error + jsval" where
  "chain_step2 svc prev =
     (case retrieverChain svc prev of
        Inl e \<Rightarrow> Inl e
      | Inr ctx \<Rightarrow>
          (case pipe (\<lambda>p. getprop p ''original_input'') (\<lambda>oi. getprop oi ''question'') prev of
             Inl e \<Rightarrow> Inl e
           | Inr q \<Rightarrow>
               (case pipe (\<lambda>p. getprop p ''original_input'')
                          (\<lambda>oi. getprop oi ''conv_history'') prev of
                  Inl e \<Rightarrow> Inl e
                | Inr h \<Rightarrow>
                    Inr (JObj [(''context'', JStr ctx), (''question'', q),
                               (''conv_history'', h)]))))"

definition chain :: "services \<Rightarrow> jsval \<Rightarrow> error + string" where
  "chain svc = pipe (pipe (chain_step1 svc) (chain_step2 svc)) (answerChain svc)"

section \<open>The conversation store\<close>

text \<open>
  \<^verbatim>\<open>userConvHistories\<close> is an object whose property for a user identity holds a
  \<^emph>\<open>reference\<close> to an array of lines. \<^verbatim>\<open>push\<close> mutates the array a reference
  points to, so the store is modelled with an explicit heap: the object maps identities to
  references, the heap maps references to array contents, and \<open>next_ref\<close> is the first
  reference not yet handed out.
\<close>

record state =
  userConvHistories :: "string \<rightharpoonup> nat"
  heap :: "nat \<Rightarrow> string list"
  next_ref :: nat

definition initial :: state where
  "initial = \<lparr>userConvHistories = Map.empty, heap = (\<lambda>r. []), next_ref = 0\<rparr>"

text \<open>The array literal \<^verbatim>\<open>[]\<close>: a fresh, empty array.\<close>

definition new_array :: "state \<Rightarrow> nat \<times> state" where
  "new_array st =
     (next_ref st,
      st\<lparr>heap := (heap st)(next_ref st := []), next_ref := Suc (next_ref st)\<rparr>)"

text \<open>\<^verbatim>\<open>userConvHistories[userId] || []\<close>: the stored array itself when there is one
  (an array is truthy, also when empty), a fresh array otherwise.\<close>

definition stored_or_new :: "state \<Rightarrow> string \<Rightarrow> nat \<times> state" where
  "stored_or_new st userId =
     (case userConvHistories st userId of
        Some r \<Rightarrow> (r, st)
      | None \<Rightarrow> new_array st)"

text \<open>\<^verbatim>\<open>convHistory.push(line)\<close> and \<^verbatim>\<open>userConvHistories[userId] = convHistory\<close>.\<close>

definition push :: "nat \<Rightarrow> string \<Rightarrow> state \<Rightarrow> state" where
  "push r line st = st\<lparr>heap := (heap st)(r := heap st r @ [line])\<rparr>"

definition assign :: "string \<Rightarrow> nat \<Rightarrow> state \<Rightarrow> state" where
  "assign userId r st = st\<lparr>userConvHistories := (userConvHistories st)(userId \<mapsto> r)\<rparr>"

text \<open>What a later request of the user reads: the lines of the stored array, none when
  nothing is stored.\<close>

definition transcript :: "state \<Rightarrow> string \<Rightarrow> string list" where
  "transcript st userId =
     (case userConvHistories st userId of
        Some r \<Rightarrow> heap st r
      | None \<Rightarrow> [])"

section \<open>The HTTP handlers\<close>

record request =
  body :: jsval
  ip :: string

record response =
  status :: nat
  json :: jsval

definition internal_error :: response where
  "internal_error = \<lparr>status = 500, json = JObj [(''error'', JStr ''Internal Server Error'')]\<rparr>"

text \<open>
  \<^verbatim>\<open>POST /api/chat\<close>. The handler is an \<^verbatim>\<open>async\<close> function with one
  \<^verbatim>\<open>await\<close>, at \<^verbatim>\<open>chain.invoke\<close>. It runs in two uninterrupted parts, and
  between them the server may run parts of other requests.

  The first part reads the question, reads or creates the array, pushes the question line
  and builds the input of the chain. Whatever is thrown there is caught and answered with
  status 500 at once. Otherwise the request is suspended; \<open>pending\<close> holds what the
  second part needs: the local variables \<^verbatim>\<open>userId\<close> and \<^verbatim>\<open>convHistory\<close> (a
  reference) and the input the chain was invoked with.
\<close>

record pending =
  p_userId :: string
  p_convHistory :: nat
  p_input :: jsval

datatype outcome = Responded response | Awaiting pending

definition chat_begin :: "state \<Rightarrow> request \<Rightarrow> state \<times> outcome" where
  "chat_begin st req =
     (case getprop (body req) ''question'' of
        Inl e \<Rightarrow> (st, Responded internal_error)
      | Inr question \<Rightarrow>
          (let userId = ip req in
           case stored_or_new st userId of
             (convHistory, st1) \<Rightarrow>
               (case ToString question of
                  Inl e \<Rightarrow> (st1, Responded internal_error)
                | Inr shown \<Rightarrow>
                    (let st2 = push convHistory (''Human: '' @ shown) st1 in
                     (st2, Awaiting
                        \<lparr>p_userId = userId, p_convHistory = convHistory,
                         p_input = JObj [(''question'', question),
                           (''conv_history'',
                            JStr (formatConvHistory (heap st2 convHistory)))]\<rparr>)))))"

text \<open>
  The second part runs when the chain has settled, on the store as it is then. A rejection is
  caught and answered with status 500; what the first part wrote stays written. An answer is
  pushed onto the request's array, the array is assigned to the user's property and the
  answer is sent.
\<close>

definition chat_resume :: "services \<Rightarrow> state \<Rightarrow> pending \<Rightarrow> state \<times> response" where
  "chat_resume svc st p =
     (case chain svc (p_input p) of
        Inl e \<Rightarrow> (st, internal_error)
      | Inr response \<Rightarrow>
          (let st3 = push (p_convHistory p) (''AI: '' @ response) st;
               st4 = assign (p_userId p) (p_convHistory p) st3
           in (st4, \<lparr>status = 200, json = JObj [(''response'', JStr response)]\<rparr>)))"

text \<open>A request that nothing interrupts: the second part follows the first at once.\<close>

definition chat :: "services \<Rightarrow> state \<Rightarrow> request \<Rightarrow> state \<times> response" where
  "chat svc st req =
     (case chat_begin st req of
        (st1, Responded res) \<Rightarrow> (st1, res)
      | (st1, Awaiting p) \<Rightarrow> chat_resume svc st1 p)"

text \<open>
  The server: the store, the suspended requests and the responses sent so far. An event is
  the arrival of a request, which runs its first part, or the settling of the chain of the
  \<open>i\<close>-th suspended request, which runs its second part with the collaborators as they
  answer then. Events happen one after the other, in any order.
\<close>

type_synonym server = "state \<times> pending list \<times> response list"

datatype event = Arrive request | Settle services nat

fun step :: "server \<Rightarrow> event \<Rightarrow> server" where
  "step (st, ws, rs) (Arrive req) =
     (case chat_begin st req of
        (st1, Responded res) \<Rightarrow> (st1, ws, rs @ [res])
      | (st1, Awaiting p) \<Rightarrow> (st1, ws @ [p], rs))"
| "step (st, ws, rs) (Settle svc i) =
     (if i < length ws
      then (case chat_resume svc st (ws ! i) of
              (st1, res) \<Rightarrow> (st1, take i ws @ drop (Suc i) ws, rs @ [res]))
      else (st, ws, rs))"






text \<open>\<^verbatim>\<open>POST /api/load-documents\<close>. The loader is built from the posted URL and two
  literals; nothing else of the request is read.\<close>

definition loader_for :: "jsval \<Rightarrow> loader" where
  "loader_for u =
     (let compiledConvert = compile \<lparr>wordwrap = Some 1000\<rparr>
      in \<lparr>url = u, extractor = compiledConvert, maxDepth = 1000\<rparr>)"

definition loadDocuments :: "services \<Rightarrow> request \<Rightarrow> response" where
  "loadDocuments svc req =
     (case getprop (body req) ''url'' of
        Inl e \<Rightarrow> internal_error
      | Inr u \<Rightarrow>
          (case load svc (loader_for u) of
             Inl e \<Rightarrow> internal_error
           | Inr docs \<Rightarrow>
               (case createDocuments svc [JSON_stringify svc docs] of
                  Inl e \<Rightarrow> internal_error
                | Inr output \<Rightarrow>
                    (case fromDocuments svc output of
                       Inl e \<Rightarrow> internal_error
                     | Inr done \<Rightarrow>
                         \<lparr>status = 200, json = JObj [(''success'', JBool True)]\<rparr>))))"

section \<open>Concrete collaborators for worked examples\<close>

text \<open>
  \<open>echo_services\<close> answers every call: its prompt rendering returns the
  \<^verbatim>\<open>conv_history\<close> value it is given, its model returns the prompt unchanged, its
  retriever finds nothing, its crawler returns one page and its splitter one chunk per text.
  \<open>down_services\<close> is the same with the language model unavailable.
\<close>

definition echo_services :: services where
  "echo_services =
     \<lparr>format = (\<lambda>t. pipe (\<lambda>v. getprop v ''conv_history'') ToString),
      llm = (\<lambda>p. Inr p),
      retriever = (\<lambda>q. Inr []),
      load = (\<lambda>l. Inr [\<lparr>pageContent = ''Scrimba offers courses.'', metadata = []\<rparr>]),
      JSON_stringify = (\<lambda>docs. concat (map pageContent docs)),
      createDocuments = (\<lambda>texts. Inr (map (\<lambda>t. \<lparr>pageContent = t, metadata = []\<rparr>) texts)),
      fromDocuments = (\<lambda>chunks. Inr ())\<rparr>"

definition down_services :: services where
  "down_services = echo_services\<lparr>llm := (\<lambda>p. Inl (ServiceError ''model unavailable''))\<rparr>"

text \<open>A chat request of the caller at address \<open>who\<close> asking \<open>q\<close>, three retrieved
  passages of which the first and the last have the same text, and collaborators whose
  retriever returns them.\<close>

definition ask :: "string \<Rightarrow> string \<Rightarrow> request" where
  "ask who q = \<lparr>body = JObj [(''question'', JStr q)], ip = who\<rparr>"

definition passages :: "document list" where
  "passages =
     [\<lparr>pageContent = ''Scrimba offers courses.'', metadata = []\<rparr>,
      \<lparr>pageContent = ''Courses are interactive.'', metadata = []\<rparr>,
      \<lparr>pageContent = ''Scrimba offers courses.'', metadata = []\<rparr>]"

definition finding_services :: services where
  "finding_services = echo_services\<lparr>retriever := (\<lambda>q. Inr passages)\<rparr>"

text \<open>A request to load the documents reachable from \<open>u\<close>.\<close>

definition post_url :: "string \<Rightarrow> request" where
  "post_url u = \<lparr>body = JObj [(''url'', JStr u)], ip = ''10.0.0.1''\<rparr>"

text \<open>Collaborators whose crawl returns the three passages as pages.\<close>

definition crawling_services :: services where
  "crawling_services = echo_services\<lparr>load := (\<lambda>l. Inr passages)\<rparr>"





section \<open>What the specification says about the context string\<close>

text \<open>The texts in their order, one separator between each two consecutive texts, every text
  kept (also a repeated one).\<close>

fun joined_with :: "string \<Rightarrow> string list \<Rightarrow> string" where
  "joined_with sep [] = []"
| "joined_with sep [t] = t"
| "joined_with sep (t # u # ts) = t @ sep @ joined_with sep (u # ts)"

section \<open>Properties of the built-ins\<close>

lemma joined_with_Cons:
  "joined_with sep (t # ts) = t @ concat (map (\<lambda>u. sep @ u) ts)"
  by (induction ts arbitrary: t) simp_all

lemma join_from_eq:
  "k \<le> length xs \<Longrightarrow>
   join_from sep xs k R =
     R @ (if k = 0 then joined_with sep xs else concat (map (\<lambda>u. sep @ u) (drop k xs)))"
proof (induction sep xs k R rule: join_from.induct)
  case (1 sep xs k R)
  show ?case
  proof (cases "k < length xs")
    case False
    then have stop: "join_from sep xs k R = R"
      by (simp add: join_from.simps [of sep xs k R])
    from False "1.prems" have "k = length xs" by simp
    with stop show ?thesis
      by (cases xs) simp_all
  next
    case True
    then have step: "join_from sep xs k R =
        join_from sep xs (Suc k) ((if 0 < k then R @ sep else R) @ xs ! k)"
      by (simp add: join_from.simps [of sep xs k R])
    from True have le: "Suc k \<le> length xs" by simp
    have dr: "drop k xs = xs ! k # drop (Suc k) xs"
      using True by (simp add: Cons_nth_drop_Suc)
    show ?thesis
    proof (cases "k = 0")
      case True
      with \<open>k < length xs\<close> obtain y ys where xs: "xs = y # ys" by (cases xs) auto
      from "1.IH" [OF \<open>k < length xs\<close> le] step True xs show ?thesis
        by (simp add: joined_with_Cons)
    next
      case False
      from "1.IH" [OF \<open>k < length xs\<close> le] step False dr show ?thesis
        by simp
    qed
  qed
qed

lemma join_joined_with: "join xs sep = joined_with sep xs"
  by (simp add: join_def join_from_eq)

lemma combineDocuments_joined:
  "combineDocuments docs = joined_with [CHR 0x0A, CHR 0x0A] (map pageContent docs)"
  by (simp add: combineDocuments_def join_joined_with)

section \<open>The chain, stage by stage\<close>

lemma chain_unfold:
  "chain svc (JObj [(''question'', q), (''conv_history'', h)]) =
     (case standaloneQuestionChain svc (JObj [(''question'', q), (''conv_history'', h)]) of
        Inl e \<Rightarrow> Inl e
      | Inr sq \<Rightarrow>
          (case retriever svc (JStr sq) of
             Inl e \<Rightarrow> Inl e
           | Inr docs \<Rightarrow>
               answerChain svc (JObj [(''context'', JStr (combineDocuments docs)),
                                      (''question'', q), (''conv_history'', h)])))"
  by (simp add: chain_def chain_step1_def chain_step2_def retrieverChain_def pipe_def
      split: sum.splits)

lemma answerChain_unfold:
  "answerChain svc v = (case format svc answerTemplate v of Inl e \<Rightarrow> Inl e | Inr p \<Rightarrow> llm svc p)"
  by (simp add: answerChain_def pipe_def StringOutputParser_def split: sum.splits)

lemma standaloneQuestionChain_unfold:
  "standaloneQuestionChain svc v =
     (case format svc standAloneQuestionTemplate v of Inl e \<Rightarrow> Inl e | Inr p \<Rightarrow> llm svc p)"
  by (simp add: standaloneQuestionChain_def pipe_def StringOutputParser_def split: sum.splits)

section \<open>The chat handler, part by part\<close>

lemma heap_after_push:
  "stored_or_new st u = (r, st1) \<Longrightarrow> heap (push r line st1) r = transcript st u @ [line]"
  by (auto simp: stored_or_new_def new_array_def push_def transcript_def split: option.splits)

lemma stored_or_new_store:
  "userConvHistories (snd (stored_or_new st u)) = userConvHistories st"
  by (simp add: stored_or_new_def new_array_def split: option.splits)

lemma chat_begin_awaiting:
  assumes "getprop (body req) ''question'' = Inr q" and "ToString q = Inr shown"
  shows "chat_begin st req =
     (push (fst (stored_or_new st (ip req))) (''Human: '' @ shown)
        (snd (stored_or_new st (ip req))),
      Awaiting \<lparr>p_userId = ip req, p_convHistory = fst (stored_or_new st (ip req)),
         p_input = JObj [(''question'', q), (''conv_history'',
           JStr (formatConvHistory (transcript st (ip req) @ [''Human: '' @ shown])))]\<rparr>)"
proof -
  obtain r st1 where son: "stored_or_new st (ip req) = (r, st1)"
    by (cases "stored_or_new st (ip req)")
  from assms son heap_after_push [OF son] show ?thesis
    by (simp add: chat_begin_def Let_def)
qed

lemma chat_begin_cases:
  "chat_begin st req = (st1, Responded res) \<Longrightarrow> res = internal_error"
  by (auto simp: chat_begin_def Let_def split: sum.splits prod.splits)


lemma chat_resume_response:
  "snd (chat_resume svc st p) =
     (case chain svc (p_input p) of
        Inl e \<Rightarrow> internal_error
      | Inr a \<Rightarrow> \<lparr>status = 200, json = JObj [(''response'', JStr a)]\<rparr>)"
  by (simp add: chat_resume_def Let_def split: sum.splits)

lemma chat_response:
  assumes "getprop (body req) ''question'' = Inr q" and "ToString q = Inr shown"
  shows "snd (chat svc st req) =
     (case chain svc (JObj [(''question'', q),
              (''conv_history'',
               JStr (formatConvHistory (transcript st (ip req) @ [''Human: '' @ shown])))]) of
        Inl e \<Rightarrow> internal_error
      | Inr a \<Rightarrow> \<lparr>status = 200, json = JObj [(''response'', JStr a)]\<rparr>)"
  by (simp add: chat_def chat_begin_awaiting [OF assms] chat_resume_response)

lemma chat_body_absent:
  "getprop (body req) ''question'' = Inl e \<Longrightarrow> chat svc st req = (st, internal_error)"
  by (simp add: chat_def chat_begin_def)

lemma chat_question_unprintable:
  assumes "getprop (body req) ''question'' = Inr q" and "ToString q = Inl e"
  shows "snd (chat svc st req) = internal_error"
    and "userConvHistories (fst (chat svc st req)) = userConvHistories st"
proof -
  obtain r st1 where son: "stored_or_new st (ip req) = (r, st1)"
    by (cases "stored_or_new st (ip req)")
  from assms son show "snd (chat svc st req) = internal_error"
    by (simp add: chat_def chat_begin_def Let_def)
  from assms son stored_or_new_store [of st "ip req"]
  show "userConvHistories (fst (chat svc st req)) = userConvHistories st"
    by (simp add: chat_def chat_begin_def Let_def)
qed

lemma chat_transcript_ok:
  assumes "getprop (body req) ''question'' = Inr q" and "ToString q = Inr shown"
    and "chain svc (JObj [(''question'', q),
              (''conv_history'',
               JStr (formatConvHistory (transcript st (ip req) @ [''Human: '' @ shown])))])
         = Inr a"
  shows "transcript (fst (chat svc st req)) (ip req) =
           transcript st (ip req) @ [''Human: '' @ shown, ''AI: '' @ a]"
proof -
  obtain r st1 where son: "stored_or_new st (ip req) = (r, st1)"
    by (cases "stored_or_new st (ip req)")
  from assms(3) son heap_after_push [OF son, of "''Human: '' @ shown"] show ?thesis
    by (simp add: chat_def chat_begin_awaiting [OF assms(1,2)] chat_resume_def Let_def
        transcript_def assign_def push_def)
qed

lemma chat_transcript_failed:
  assumes "getprop (body req) ''question'' = Inr q" and "ToString q = Inr shown"
    and "chain svc (JObj [(''question'', q),
              (''conv_history'',
               JStr (formatConvHistory (transcript st (ip req) @ [''Human: '' @ shown])))])
         = Inl e"
  shows "transcript (fst (chat svc st req)) (ip req) =
           (case userConvHistories st (ip req) of
              None \<Rightarrow> []
            | Some r \<Rightarrow> heap st r @ [''Human: '' @ shown])"
proof (cases "userConvHistories st (ip req)")
  case None
  then have son: "stored_or_new st (ip req) =
      (next_ref st, st\<lparr>heap := (heap st)(next_ref st := []), next_ref := Suc (next_ref st)\<rparr>)"
    by (simp add: stored_or_new_def new_array_def)
  from assms(3) son None show ?thesis
    by (simp add: chat_def chat_begin_awaiting [OF assms(1,2)] chat_resume_def
        transcript_def push_def)
next
  case (Some r)
  then have son: "stored_or_new st (ip req) = (r, st)"
    by (simp add: stored_or_new_def)
  from assms(3) son Some show ?thesis
    by (simp add: chat_def chat_begin_awaiting [OF assms(1,2)] chat_resume_def
        transcript_def push_def)
qed

lemma loadDocuments_unfold:
  "loadDocuments svc req =
     (case getprop (body req) ''url'' of
        Inl e \<Rightarrow> internal_error
      | Inr u \<Rightarrow>
          (case load svc \<lparr>url = u, extractor = Compiled \<lparr>wordwrap = Some 1000\<rparr>,
                           maxDepth = 1000\<rparr> of
             Inl e \<Rightarrow> internal_error
           | Inr docs \<Rightarrow>
               (case createDocuments svc [JSON_stringify svc docs] of
                  Inl e \<Rightarrow> internal_error
                | Inr output \<Rightarrow>
                    (case fromDocuments svc output of
                       Inl e \<Rightarrow> internal_error
                     | Inr done \<Rightarrow>
                         \<lparr>status = 200, json = JObj [(''success'', JBool True)]\<rparr>))))"
  by (simp add: loadDocuments_def loader_for_def compile_def split: sum.splits)

lemma loadDocuments_ok_only_if:
  assumes "status (loadDocuments svc req) = 200"
  shows "(\<exists>u docs output.
            getprop (body req) ''url'' = Inr u \<and>
            load svc (loader_for u) = Inr docs \<and>
            createDocuments svc [JSON_stringify svc docs] = Inr output \<and>
            fromDocuments svc output = Inr ()) \<and>
         json (loadDocuments svc req) = JObj [(''success'', JBool True)]"
  using assms
  by (auto simp: loadDocuments_def internal_error_def split: sum.splits)

section \<open>Requests of different callers do not touch each other's arrays\<close>

















section \<open>Retrieval stage\<close>

text \<open>
  C7. Whatever documents the retriever returns for the standalone question, the context
  produced by the retrieval stage is their texts in the order returned, with one blank line
  (two newline characters) between each two consecutive texts; no text is dropped, also
  when it repeats an earlier one.
\<close>

theorem retrieverChain_context:
  assumes "getprop prevResult ''standalone_question'' = Inr q"
    and "retriever svc q = Inr docs"
  shows "retrieverChain svc prevResult =
           Inr (joined_with [CHR 0x0A, CHR 0x0A] (map pageContent docs))"
  using assms by (simp add: retrieverChain_def pipe_def combineDocuments_joined)

theorem retrieverChain_context_witness:
  "getprop (JObj [(''standalone_question'', JStr ''What does Scrimba offer?'')])
     ''standalone_question'' = Inr (JStr ''What does Scrimba offer?'') \<and>
   retriever finding_services (JStr ''What does Scrimba offer?'') = Inr passages \<and>
   retrieverChain finding_services
     (JObj [(''standalone_question'', JStr ''What does Scrimba offer?'')]) =
     Inr (''Scrimba offers courses.'' @ [CHR 0x0A, CHR 0x0A] @ ''Courses are interactive.'' @
          [CHR 0x0A, CHR 0x0A] @ ''Scrimba offers courses.'')"
  using retrieverChain_context
    [of "JObj [(''standalone_question'', JStr ''What does Scrimba offer?'')]"
        "JStr ''What does Scrimba offer?''" finding_services passages]
  by (simp add: finding_services_def passages_def)

section \<open>Chat requests\<close>

text \<open>
  C1 asks that a chat request which fails at a pipeline stage leave the stored history of
  its user as it was. The handler pushes the question onto the array it read from the store
  before it invokes the chain, and for a user who already has a stored history that array
  \<^emph>\<open>is\<close> the stored one. Evaluated on two requests of one caller, the first answered, the
  second failing because the language model is unavailable: the second request is answered
  with the 500 response and no answer entry is written, but its question entry has become
  part of the stored transcript.
\<close>

theorem chat_failure_keeps_question:
  "transcript (fst (chat echo_services initial (ask ''10.0.0.1'' ''hi''))) ''10.0.0.1'' =
     [''Human: hi'', ''AI: Human: hi''] \<and>
   snd (chat down_services (fst (chat echo_services initial (ask ''10.0.0.1'' ''hi'')))
          (ask ''10.0.0.1'' ''q'')) = internal_error \<and>
   transcript (fst (chat down_services (fst (chat echo_services initial (ask ''10.0.0.1'' ''hi'')))
          (ask ''10.0.0.1'' ''q''))) ''10.0.0.1'' =
     [''Human: hi'', ''AI: Human: hi'', ''Human: q'']"
  by code_simp

text \<open>
  C2 says the history string given to the query rewriter and to answer synthesis holds
  entries of earlier request cycles only. For a first request asking \<open>q\<close> the earlier
  history is empty, yet the collaborators that return the history they are given answer
  with the line of the current question: the response is not the one the chain gives on the
  earlier history alone.
\<close>

theorem chat_history_prior_only_counterexample:
  "transcript initial ''10.0.0.1'' = [] \<and>
   snd (chat echo_services initial (ask ''10.0.0.1'' ''q'')) =
     \<lparr>status = 200, json = JObj [(''response'', JStr ''Human: q'')]\<rparr> \<and>
   snd (chat echo_services initial (ask ''10.0.0.1'' ''q'')) \<noteq>
     (case chain echo_services (JObj [(''question'', JStr ''q''),
             (''conv_history'', JStr (formatConvHistory (transcript initial ''10.0.0.1'')))]) of
        Inl e \<Rightarrow> internal_error
      | Inr a \<Rightarrow> \<lparr>status = 200, json = JObj [(''response'', JStr a)]\<rparr>)"
  by code_simp

text \<open>
  C2, as the code has it: the question entry is pushed before the chain is invoked. A
  request whose question cannot be shown as a string is answered with the 500 response at
  once, without the chain being invoked.
  For every other request the chain is invoked with a history string that is the lines the
  caller's transcript holds at arrival followed by the line \<^verbatim>\<open>Human: <question>\<close> of
  the current request, with one newline between each two consecutive lines; the answer
  entry of the current request is not part of it. That string is what the query rewriter and
  answer synthesis are given, and the response is computed from it whatever else the server
  does before the chain settles.
\<close>

theorem chat_history_includes_question:
  assumes "getprop (body req) ''question'' = Inr q"
  shows "case ToString q of
     Inl e \<Rightarrow>
       snd (chat_begin st req) = Responded internal_error \<and>
       snd (chat svc st req) = internal_error
   | Inr shown \<Rightarrow>
       snd (chat_begin st req) =
         Awaiting \<lparr>p_userId = ip req, p_convHistory = fst (stored_or_new st (ip req)),
            p_input = JObj [(''question'', q), (''conv_history'',
              JStr (joined_with [CHR 0x0A]
                     (transcript st (ip req) @ [''Human: '' @ shown])))]\<rparr> \<and>
       snd (chat svc st req) =
         (case standaloneQuestionChain svc (JObj [(''question'', q), (''conv_history'',
                  JStr (joined_with [CHR 0x0A]
                         (transcript st (ip req) @ [''Human: '' @ shown])))]) of
            Inl e \<Rightarrow> internal_error
          | Inr sq \<Rightarrow>
              (case retriever svc (JStr sq) of
                 Inl e \<Rightarrow> internal_error
               | Inr docs \<Rightarrow>
                   (case answerChain svc (JObj [(''context'', JStr (combineDocuments docs)),
                           (''question'', q), (''conv_history'',
                            JStr (joined_with [CHR 0x0A]
                                   (transcript st (ip req) @ [''Human: '' @ shown])))]) of
                      Inl e \<Rightarrow> internal_error
                    | Inr a \<Rightarrow>
                        \<lparr>status = 200, json = JObj [(''response'', JStr a)]\<rparr>))) \<and>
       snd (chat_resume svc st2
              \<lparr>p_userId = ip req, p_convHistory = fst (stored_or_new st (ip req)),
               p_input = JObj [(''question'', q), (''conv_history'',
                 JStr (joined_with [CHR 0x0A]
                        (transcript st (ip req) @ [''Human: '' @ shown])))]\<rparr>) =
         snd (chat svc st req)"
proof (cases "ToString q")
  case (Inl e)
  from assms Inl have "snd (chat_begin st req) = Responded internal_error"
    by (simp add: chat_begin_def Let_def split: prod.splits)
  with chat_question_unprintable(1) [OF assms Inl] Inl show ?thesis
    by simp
next
  case (Inr shown)
  have j: "formatConvHistory xs = joined_with [CHR 0x0A] xs" for xs
    by (simp add: formatConvHistory_def join_joined_with)
  from Inr show ?thesis
    by (simp add: chat_begin_awaiting [OF assms Inr] chat_response [OF assms Inr]
        chat_resume_response j chain_unfold split: sum.splits)
qed

theorem chat_history_includes_question_witness:
  "getprop (body (ask ''10.0.0.1'' ''q'')) ''question'' = Inr (JStr ''q'') \<and>
   ToString (JStr ''q'') = Inr ''q'' \<and>
   transcript (fst (chat echo_services initial (ask ''10.0.0.1'' ''hi''))) ''10.0.0.1'' =
     [''Human: hi'', ''AI: Human: hi''] \<and>
   snd (chat echo_services (fst (chat echo_services initial (ask ''10.0.0.1'' ''hi'')))
          (ask ''10.0.0.1'' ''q'')) =
     \<lparr>status = 200, json = JObj [(''response'',
        JStr (''Human: hi'' @ [CHR 0x0A] @ ''AI: Human: hi'' @ [CHR 0x0A] @ ''Human: q''))]\<rparr>"
proof -
  have q: "getprop (body (ask ''10.0.0.1'' ''q'')) ''question'' = Inr (JStr ''q'')"
    by (simp add: ask_def)
  have shown: "ToString (JStr ''q'') = Inr ''q''"
    by simp
  have t: "transcript (fst (chat echo_services initial (ask ''10.0.0.1'' ''hi''))) ''10.0.0.1'' =
     [''Human: hi'', ''AI: Human: hi'']"
    by code_simp
  have i: "ip (ask ''10.0.0.1'' ''q'') = ''10.0.0.1''"
    by (simp add: ask_def)
  from chat_history_includes_question [OF q,
      where svc = echo_services
        and st = "fst (chat echo_services initial (ask ''10.0.0.1'' ''hi''))"]
  have "snd (chat echo_services (fst (chat echo_services initial (ask ''10.0.0.1'' ''hi'')))
          (ask ''10.0.0.1'' ''q'')) =
     \<lparr>status = 200, json = JObj [(''response'',
        JStr (''Human: hi'' @ [CHR 0x0A] @ ''AI: Human: hi'' @ [CHR 0x0A] @ ''Human: q''))]\<rparr>"
    unfolding i t
    by (simp add: echo_services_def standaloneQuestionChain_unfold answerChain_unfold pipe_def)
  with q shown t show ?thesis
    by simp
qed

text \<open>
  C6. When the question of the request body can be shown as a string and rewriting and
  retrieval have succeeded, the response of a chat request is the language model's answer to
  the prompt rendered from \<open>answerTemplate\<close> with \<^verbatim>\<open>question\<close> bound to the question
  of the request body (not to the standalone question \<open>sq\<close>), \<^verbatim>\<open>context\<close> bound to
  the combined retrieved documents and \<^verbatim>\<open>conv_history\<close> bound to the formatted
  history; a failure of the rendering or of the model gives the 500 response.
\<close>

theorem chat_answer_prompt:
  assumes "getprop (body req) ''question'' = Inr q"
    and "ToString q = Inr shown"
    and "h = JStr (formatConvHistory (transcript st (ip req) @ [''Human: '' @ shown]))"
    and "standaloneQuestionChain svc (JObj [(''question'', q), (''conv_history'', h)]) = Inr sq"
    and "retriever svc (JStr sq) = Inr docs"
  shows "snd (chat svc st req) =
     (case format svc answerTemplate
             (JObj [(''context'', JStr (combineDocuments docs)), (''question'', q),
                    (''conv_history'', h)]) of
        Inl e \<Rightarrow> internal_error
      | Inr prompt \<Rightarrow>
          (case llm svc prompt of
             Inl e \<Rightarrow> internal_error
           | Inr a \<Rightarrow> \<lparr>status = 200, json = JObj [(''response'', JStr a)]\<rparr>))"
  using assms(4,5) unfolding assms(3)
  by (simp add: chat_response [OF assms(1,2)] chain_unfold answerChain_unfold split: sum.splits)

theorem chat_answer_prompt_witness:
  "getprop (body (ask ''10.0.0.1'' ''q'')) ''question'' = Inr (JStr ''q'') \<and>
   ToString (JStr ''q'') = Inr ''q'' \<and>
   standaloneQuestionChain finding_services
     (JObj [(''question'', JStr ''q''), (''conv_history'', JStr ''Human: q'')]) = Inr ''Human: q'' \<and>
   retriever finding_services (JStr ''Human: q'') = Inr passages \<and>
   snd (chat finding_services initial (ask ''10.0.0.1'' ''q'')) =
     \<lparr>status = 200, json = JObj [(''response'', JStr ''Human: q'')]\<rparr>"
  using chat_answer_prompt [of "ask ''10.0.0.1'' ''q''" "JStr ''q''" "''q''" "JStr ''Human: q''"
      initial finding_services "''Human: q''" passages]
  by (simp add: ask_def finding_services_def echo_services_def initial_def transcript_def
      formatConvHistory_def join_joined_with standaloneQuestionChain_unfold pipe_def)




text \<open>
  C9 says a chat request whose body lacks the question field fails with the 500 response
  before the pipeline runs. The handler does not inspect the field: destructuring an object
  without it gives \<^verbatim>\<open>undefined\<close>, and with collaborators that answer, the request is
  answered with status 200.
\<close>

theorem chat_missing_question_rejected_counterexample:
  "getprop (JObj []) ''question'' = Inr JUndefined \<and>
   snd (chat echo_services initial \<lparr>body = JObj [], ip = ''10.0.0.1''\<rparr>) =
     \<lparr>status = 200, json = JObj [(''response'', JStr ''Human: undefined'')]\<rparr>"
  by code_simp

text \<open>
  C9, as the code has it: a chat request whose body is an object without a question field is
  not rejected. The question is \<^verbatim>\<open>undefined\<close>, the entry \<^verbatim>\<open>Human: undefined\<close> is
  pushed, the chain is invoked, and the response is the chain's: status 200 with its answer,
  or the 500 response when a stage of the chain fails.
\<close>

theorem chat_missing_question:
  assumes "body req = JObj fs" and "map_of fs ''question'' = None"
  shows "snd (chat svc st req) =
     (case chain svc (JObj [(''question'', JUndefined), (''conv_history'',
              JStr (formatConvHistory (transcript st (ip req) @ [''Human: undefined''])))]) of
        Inl e \<Rightarrow> internal_error
      | Inr a \<Rightarrow> \<lparr>status = 200, json = JObj [(''response'', JStr a)]\<rparr>)"
proof -
  from assms have "getprop (body req) ''question'' = Inr JUndefined"
    by simp
  moreover have "ToString JUndefined = Inr ''undefined''"
    by simp
  ultimately show ?thesis
    using chat_response [of req JUndefined "''undefined''" svc st] by simp
qed

theorem chat_missing_question_witness:
  "body \<lparr>body = JObj [(''q'', JStr ''hello'')], ip = ''10.0.0.1''\<rparr> = JObj [(''q'', JStr ''hello'')] \<and>
   map_of [(''q'', JStr ''hello'')] ''question'' = None \<and>
   snd (chat echo_services initial \<lparr>body = JObj [(''q'', JStr ''hello'')], ip = ''10.0.0.1''\<rparr>) =
     \<lparr>status = 200, json = JObj [(''response'', JStr ''Human: undefined'')]\<rparr>"
  using chat_missing_question [of "\<lparr>body = JObj [(''q'', JStr ''hello'')], ip = ''10.0.0.1''\<rparr>"
      "[(''q'', JStr ''hello'')]" echo_services initial]
  by (simp add: echo_services_def initial_def transcript_def formatConvHistory_def
      join_joined_with chain_unfold standaloneQuestionChain_unfold answerChain_unfold pipe_def)

section \<open>Document loading\<close>

text \<open>
  C3 says the normalisation of crawled pages imposes no line-wrap width. The converter handed
  to the crawler is compiled with a width: wrapping is not switched off.
\<close>

theorem normalizer_no_wrap_width_counterexample:
  "wordwrap (options_of (extractor (loader_for (JStr ''https://scrimba.com'')))) \<noteq> None"
  by (simp add: loader_for_def compile_def)

text \<open>
  C3, as the code has it: for every request the converter that normalises the crawled pages
  is compiled with a line-wrap width of 1000 characters. A crawler that refuses every other
  converter answers every request as the given crawler does.
\<close>

theorem normalizer_wrap_width:
  "wordwrap (options_of (extractor (loader_for u))) = Some 1000 \<and>
   loadDocuments
     (svc\<lparr>load := (\<lambda>l. if wordwrap (options_of (extractor l)) = Some 1000 then load svc l
                        else Inl (ServiceError ''another converter''))\<rparr>) req =
   loadDocuments svc req"
  by (simp add: loadDocuments_unfold loader_for_def compile_def split: sum.splits)

text \<open>
  C10. The crawl's depth bound is the constant 1000: a crawler that refuses every other
  depth answers every request as the given crawler does, and two requests that post the same
  URL are answered alike whatever else their bodies hold.
\<close>

theorem crawl_depth_fixed:
  "maxDepth (loader_for u) = 1000 \<and>
   loadDocuments
     (svc\<lparr>load := (\<lambda>l. if maxDepth l = 1000 then load svc l
                        else Inl (ServiceError ''another depth''))\<rparr>) req =
   loadDocuments svc req \<and>
   (getprop (body req) ''url'' = getprop (body req') ''url'' \<longrightarrow>
      loadDocuments svc req = loadDocuments svc req')"
  by (simp add: loadDocuments_unfold loader_for_def split: sum.splits)

theorem crawl_depth_fixed_witness:
  "getprop (body (post_url ''https://scrimba.com'')) ''url'' =
     getprop (JObj [(''maxDepth'', JStr ''1''), (''url'', JStr ''https://scrimba.com'')]) ''url'' \<and>
   loadDocuments echo_services (post_url ''https://scrimba.com'') =
     loadDocuments echo_services
       \<lparr>body = JObj [(''maxDepth'', JStr ''1''), (''url'', JStr ''https://scrimba.com'')],
          ip = ''10.0.0.2''\<rparr>"
  using crawl_depth_fixed [of "JStr ''https://scrimba.com''" echo_services
      "post_url ''https://scrimba.com''"
      "\<lparr>body = JObj [(''maxDepth'', JStr ''1''), (''url'', JStr ''https://scrimba.com'')],
          ip = ''10.0.0.2''\<rparr>"]
  by (simp add: post_url_def)

text \<open>
  C4 says a successful ingestion returns a result carrying \<^verbatim>\<open>chunkCount\<close>. For a
  page with text, crawled, split and stored without failure, the response body has the single
  property \<^verbatim>\<open>success\<close>; reading \<^verbatim>\<open>chunkCount\<close> from it gives
  \<^verbatim>\<open>undefined\<close>.
\<close>

theorem ingest_chunk_count_counterexample:
  "load echo_services (loader_for (JStr ''https://scrimba.com'')) =
     Inr [\<lparr>pageContent = ''Scrimba offers courses.'', metadata = []\<rparr>] \<and>
   loadDocuments echo_services (post_url ''https://scrimba.com'') =
     \<lparr>status = 200, json = JObj [(''success'', JBool True)]\<rparr> \<and>
   getprop (json (loadDocuments echo_services (post_url ''https://scrimba.com''))) ''chunkCount'' =
     Inr JUndefined"
  by code_simp

text \<open>
  C4, as the code has it: every successful ingestion, that is, every request whose URL is
  read and whose crawl, splitting and storing succeed, is answered with status 200 and the
  body \<^verbatim>\<open>{ success: true }\<close>, whatever the chunks the splitter produced; the body
  carries no \<^verbatim>\<open>chunkCount\<close>.
\<close>

theorem ingest_success_response:
  assumes "getprop (body req) ''url'' = Inr u"
    and "load svc (loader_for u) = Inr docs"
    and "createDocuments svc [JSON_stringify svc docs] = Inr output"
    and "fromDocuments svc output = Inr ()"
  shows "loadDocuments svc req = \<lparr>status = 200, json = JObj [(''success'', JBool True)]\<rparr> \<and>
         getprop (json (loadDocuments svc req)) ''chunkCount'' = Inr JUndefined"
  using assms by (simp add: loadDocuments_def)

theorem ingest_success_response_witness:
  "getprop (body (post_url ''https://scrimba.com'')) ''url'' = Inr (JStr ''https://scrimba.com'') \<and>
   load crawling_services (loader_for (JStr ''https://scrimba.com'')) = Inr passages \<and>
   createDocuments crawling_services [JSON_stringify crawling_services passages] =
     Inr [\<lparr>pageContent = JSON_stringify crawling_services passages, metadata = []\<rparr>] \<and>
   fromDocuments crawling_services
     [\<lparr>pageContent = JSON_stringify crawling_services passages, metadata = []\<rparr>] = Inr () \<and>
   loadDocuments crawling_services (post_url ''https://scrimba.com'') =
     \<lparr>status = 200, json = JObj [(''success'', JBool True)]\<rparr>"
  using ingest_success_response [of "post_url ''https://scrimba.com''"
      "JStr ''https://scrimba.com''" crawling_services passages
      "[\<lparr>pageContent = JSON_stringify crawling_services passages, metadata = []\<rparr>]"]
  by (simp add: post_url_def crawling_services_def echo_services_def)

text \<open>
  C5. Once the crawl has returned its documents, the splitter is called once, on the list
  whose only element is the JSON encoding of the whole array of documents: the response is
  determined by the splitter's result on that one-element list, and a splitter that refuses
  every other input answers the request as the given splitter does.
\<close>

theorem chunker_input_whole_batch:
  assumes "getprop (body req) ''url'' = Inr u"
    and "load svc (loader_for u) = Inr docs"
  shows "loadDocuments svc req =
     (case createDocuments svc [JSON_stringify svc docs] of
        Inl e \<Rightarrow> internal_error
      | Inr output \<Rightarrow>
          (case fromDocuments svc output of
             Inl e \<Rightarrow> internal_error
           | Inr done \<Rightarrow> \<lparr>status = 200, json = JObj [(''success'', JBool True)]\<rparr>)) \<and>
   loadDocuments
     (svc\<lparr>createDocuments := (\<lambda>texts. if texts = [JSON_stringify svc docs]
                                   then createDocuments svc texts
                                   else Inl (ServiceError ''another input''))\<rparr>) req =
   loadDocuments svc req"
  using assms by (simp add: loadDocuments_def split: sum.splits)

theorem chunker_input_whole_batch_witness:
  "getprop (body (post_url ''https://scrimba.com'')) ''url'' = Inr (JStr ''https://scrimba.com'') \<and>
   load crawling_services (loader_for (JStr ''https://scrimba.com'')) = Inr passages \<and>
   length passages = 3 \<and>
   loadDocuments crawling_services (post_url ''https://scrimba.com'') =
     \<lparr>status = 200, json = JObj [(''success'', JBool True)]\<rparr>"
  using chunker_input_whole_batch [of "post_url ''https://scrimba.com''"
      "JStr ''https://scrimba.com''" crawling_services passages]
  by (simp add: post_url_def crawling_services_def echo_services_def passages_def)

end
